theory Spec2Isabelle
  imports Main "HOL-Library.Word"
begin

section \<open>Text primitives of the converter\<close>

text \<open>
  The converter \<^verbatim>\<open>convert_to_openelections.py\<close> works on Python \<^verbatim>\<open>str\<close> values.
  A text is modelled as a \<^typ>\<open>string\<close>, a list of 8-bit characters read as the code
  points 0 to 255 (the range that latin-1 decoding yields, ASCII included). On that range
  the functions below are Python's: \<^verbatim>\<open>str.isspace\<close>, \<^verbatim>\<open>str.strip\<close>, \<^verbatim>\<open>str.lower\<close>,
  \<^verbatim>\<open>str.upper\<close>, \<^verbatim>\<open>str.zfill\<close>, \<^verbatim>\<open>int\<close>, and the regular expressions of the source.
\<close>

abbreviation dquote :: char where "dquote \<equiv> CHR 0x22"
abbreviation apostrophe :: char where "apostrophe \<equiv> CHR 0x27"
abbreviation backtick :: char where "backtick \<equiv> CHR 0x60"
abbreviation newline :: char where "newline \<equiv> CHR 0x0A"
abbreviation backslash :: char where "backslash \<equiv> CHR 0x5C"

text \<open>\<^verbatim>\<open>str.isspace\<close> on one character; also what \<^verbatim>\<open>\s\<close> matches in a \<^verbatim>\<open>str\<close> pattern:
  TAB, LF, VT, FF, CR, the separators 0x1C to 0x1F, space, NEL (0x85) and NBSP (0xA0).\<close>

definition is_space :: "char \<Rightarrow> bool" where
  "is_space c =
     (let n = (of_char c :: nat)
      in (9 \<le> n \<and> n \<le> 13) \<or> (28 \<le> n \<and> n \<le> 32) \<or> n = 133 \<or> n = 160)"

definition lstrip :: "string \<Rightarrow> string" where
  "lstrip s = dropWhile is_space s"

definition rstrip :: "string \<Rightarrow> string" where
  "rstrip s = rev (dropWhile is_space (rev s))"

text \<open>\<^verbatim>\<open>s.strip()\<close>\<close>

definition strip :: "string \<Rightarrow> string" where
  "strip s = rstrip (lstrip s)"

text \<open>\<^verbatim>\<open>s.strip(chars)\<close>\<close>

definition strip_chars :: "string \<Rightarrow> string \<Rightarrow> string" where
  "strip_chars chars s =
     rev (dropWhile (\<lambda>c. c \<in> set chars) (rev (dropWhile (\<lambda>c. c \<in> set chars) s)))"

text \<open>The simple lower-case mapping of one character: A to Z, and the latin-1 capitals
  0xC0 to 0xDE without the multiplication sign 0xD7. It is \<^verbatim>\<open>str.lower\<close> per character
  and the folding that \<^verbatim>\<open>re.I\<close> applies to a literal of the pattern.\<close>

definition py_lower :: "char \<Rightarrow> char" where
  "py_lower c =
     (let n = (of_char c :: nat)
      in if (65 \<le> n \<and> n \<le> 90) \<or> (192 \<le> n \<and> n \<le> 222 \<and> n \<noteq> 215)
         then char_of (n + 32) else c)"

definition lower :: "string \<Rightarrow> string" where
  "lower s = map py_lower s"

text \<open>\<^verbatim>\<open>str.upper\<close>: a to z and 0xE0 to 0xFE without the division sign 0xF7 move down by
  32, the sharp s (0xDF) becomes \<^verbatim>\<open>SS\<close>. The upper-case forms of 0xB5 and 0xFF lie outside
  the modelled range; these two characters are left as they are, which no comparison
  with an ASCII literal can observe.\<close>

definition py_upper :: "char \<Rightarrow> string" where
  "py_upper c =
     (let n = (of_char c :: nat)
      in if (97 \<le> n \<and> n \<le> 122) \<or> (224 \<le> n \<and> n \<le> 254 \<and> n \<noteq> 247)
         then [char_of (n - 32)]
         else if n = 223 then ''SS'' else [c])"

definition upper :: "string \<Rightarrow> string" where
  "upper s = concat (map py_upper s)"

text \<open>\<^verbatim>\<open>s.startswith(m)\<close>, \<^verbatim>\<open>s.endswith(m)\<close> and \<^verbatim>\<open>m in s\<close>\<close>

definition starts_with :: "string \<Rightarrow> string \<Rightarrow> bool" where
  "starts_with m s = (take (length m) s = m)"

definition ends_with :: "string \<Rightarrow> string \<Rightarrow> bool" where
  "ends_with m s = (length m \<le> length s \<and> drop (length s - length m) s = m)"

fun contains_sub :: "string \<Rightarrow> string \<Rightarrow> bool" where
  "contains_sub m [] = (m = [])"
| "contains_sub m (c # cs) = (starts_with m (c # cs) \<or> contains_sub m cs)"

text \<open>\<^verbatim>\<open>s.replace(",", "")\<close> and \<^verbatim>\<open>s.replace("`", "'")\<close>\<close>

definition remove_commas :: "string \<Rightarrow> string" where
  "remove_commas s = filter (\<lambda>c. c \<noteq> CHR '','') s"

definition replace_backticks :: "string \<Rightarrow> string" where
  "replace_backticks s = map (\<lambda>c. if c = backtick then apostrophe else c) s"

text \<open>\<^verbatim>\<open>s.zfill(width)\<close>: zeros go after a leading sign.\<close>

definition zfill :: "nat \<Rightarrow> string \<Rightarrow> string" where
  "zfill width s =
     (if width \<le> length s then s
      else (case s of
              [] \<Rightarrow> replicate width CHR ''0''
            | c # cs \<Rightarrow>
                if c = CHR ''+'' \<or> c = CHR ''-''
                then c # replicate (width - length s) CHR ''0'' @ cs
                else replicate (width - length s) CHR ''0'' @ s))"

text \<open>\<^verbatim>\<open>re.sub(r"\s+", " ", s)\<close>: every maximal run of whitespace becomes one space.\<close>

fun collapse_from :: "bool \<Rightarrow> string \<Rightarrow> string" where
  "collapse_from in_run [] = []"
| "collapse_from in_run (c # cs) =
     (if is_space c
      then (if in_run then collapse_from True cs else CHR '' '' # collapse_from True cs)
      else c # collapse_from False cs)"

definition collapse_ws :: "string \<Rightarrow> string" where
  "collapse_ws s = collapse_from False s"

subsection \<open>Python's int on a text\<close>

text \<open>
  \<^verbatim>\<open>int(s)\<close> in base 10: surrounding whitespace is dropped, one sign is allowed, then
  decimal digits with single underscores between digits. CPython from 3.11 on refuses
  more than 4300 digits (underscores and the sign not counted). \<^const>\<open>None\<close> stands for
  \<^verbatim>\<open>ValueError\<close>.
\<close>

definition is_digit :: "char \<Rightarrow> bool" where
  "is_digit c = (let n = (of_char c :: nat) in 48 \<le> n \<and> n \<le> 57)"

definition digit_val :: "char \<Rightarrow> nat" where
  "digit_val c = of_char c - 48"

fun digits_ok :: "string \<Rightarrow> bool" where
  "digits_ok [] = False"
| "digits_ok [c] = is_digit c"
| "digits_ok (c # d # cs) =
     (is_digit c \<and> (if d = CHR ''_'' then digits_ok cs else digits_ok (d # cs)))"

definition digits_value :: "string \<Rightarrow> nat" where
  "digits_value ds = foldl (\<lambda>acc c. 10 * acc + digit_val c) 0 ds"

definition int_max_str_digits :: nat where
  "int_max_str_digits = 4300"

definition py_int :: "string \<Rightarrow> int option" where
  "py_int s =
     (let t = strip s;
          neg = (t \<noteq> [] \<and> hd t = CHR ''-'');
          body = (if t \<noteq> [] \<and> (hd t = CHR ''-'' \<or> hd t = CHR ''+'') then tl t else t);
          ds = filter (\<lambda>c. c \<noteq> CHR ''_'') body
      in if digits_ok body \<and> length ds \<le> int_max_str_digits
         then Some (if neg then - int (digits_value ds) else int (digits_value ds))
         else None)"

section \<open>The text normalizers\<close>

subsection \<open>Regular expressions of the source\<close>

text \<open>
  \<^verbatim>\<open>re.sub\<close> replaces the leftmost match first, so each pattern is a test of the text
  from one position on, tried at every position from the left. A pattern that ends in
  \<^verbatim>\<open>$\<close> matches up to the end of the text or up to one final line feed, which then
  stays in the result.
\<close>

text \<open>\<^verbatim>\<open>\s+LIT$\<close> under \<^verbatim>\<open>re.I\<close>, for a lower-case literal: the text left after the
  match, when the pattern matches from the first character on.\<close>

definition ws_lit_end :: "string \<Rightarrow> string \<Rightarrow> string option" where
  "ws_lit_end lit t =
     (let r = dropWhile is_space t; rest = drop (length lit) r
      in if r \<noteq> t \<and> lower (take (length lit) r) = lit \<and> (rest = [] \<or> rest = [newline])
         then Some rest else None)"

text \<open>\<^verbatim>\<open>re.sub(r"\s+LIT$", repl, s, flags=re.I)\<close>\<close>

fun sub_ws_lit_end :: "string \<Rightarrow> string \<Rightarrow> string \<Rightarrow> string" where
  "sub_ws_lit_end lit repl [] = []"
| "sub_ws_lit_end lit repl (c # cs) =
     (case ws_lit_end lit (c # cs) of
        Some rest \<Rightarrow> repl @ rest
      | None \<Rightarrow> c # sub_ws_lit_end lit repl cs)"

text \<open>\<^verbatim>\<open>\s*-\s*LIT.*$\<close> under \<^verbatim>\<open>re.I\<close>: the dot matches no line feed.\<close>

definition dash_lit_tail :: "string \<Rightarrow> string \<Rightarrow> string option" where
  "dash_lit_tail lit t =
     (case dropWhile is_space t of
        [] \<Rightarrow> None
      | d # r1 \<Rightarrow>
          (let r2 = dropWhile is_space r1; rest = drop (length lit) r2
           in if d = CHR ''-'' \<and> lower (take (length lit) r2) = lit
              then (if newline \<notin> set rest then Some []
                    else if last rest = newline \<and> newline \<notin> set (butlast rest)
                         then Some [newline] else None)
              else None))"

text \<open>\<^verbatim>\<open>re.sub(r"\s*-\s*LIT.*$", "", s, flags=re.I)\<close>\<close>

fun sub_dash_lit_tail :: "string \<Rightarrow> string \<Rightarrow> string" where
  "sub_dash_lit_tail lit [] = []"
| "sub_dash_lit_tail lit (c # cs) =
     (case dash_lit_tail lit (c # cs) of
        Some rest \<Rightarrow> rest
      | None \<Rightarrow> c # sub_dash_lit_tail lit cs)"

text \<open>\<^verbatim>\<open>\(([^()]*)\)\s*$\<close> from the first character on: group 1 of the match.\<close>

definition paren_group_end :: "string \<Rightarrow> string option" where
  "paren_group_end t =
     (case t of
        [] \<Rightarrow> None
      | c # r \<Rightarrow>
          if c = CHR ''(''
          then (case dropWhile (\<lambda>x. x \<noteq> CHR ''('' \<and> x \<noteq> CHR '')'') r of
                  [] \<Rightarrow> None
                | e # after \<Rightarrow>
                    if e = CHR '')'' \<and> list_all is_space after
                    then Some (takeWhile (\<lambda>x. x \<noteq> CHR ''('' \<and> x \<noteq> CHR '')'') r)
                    else None)
          else None)"

text \<open>\<^verbatim>\<open>re.search(r"\(([^()]*)\)\s*$", text)\<close>: the text before the leftmost match
  (\<^verbatim>\<open>text[:match.start()]\<close>, kept reversed in the accumulator) and group 1.\<close>

fun search_paren_group :: "string \<Rightarrow> string \<Rightarrow> (string \<times> string) option" where
  "search_paren_group acc [] = None"
| "search_paren_group acc (c # cs) =
     (case paren_group_end (c # cs) of
        Some g \<Rightarrow> Some (rev acc, g)
      | None \<Rightarrow> search_paren_group (c # acc) cs)"

subsection \<open>Lookup tables\<close>

definition OFFICE_CLEANUPS :: "(string \<times> string) list" where
  "OFFICE_CLEANUPS =
     [(''President and Vice President of the United States'', ''President''),
      (''President / Vice President'', ''President''),
      (''President - Vice Pres'', ''President''),
      (''Governor / Lt. Governor'', ''Governor'')]"

definition COUNTY_FIXES :: "(string \<times> string) list" where
  "COUNTY_FIXES =
     [(''Prince George'' @ [backtick] @ ''s'', ''Prince George'' @ [apostrophe] @ ''s''),
      (''Queen Anne'' @ [backtick] @ ''s'', ''Queen Anne'' @ [apostrophe] @ ''s''),
      (''St. Mary'' @ [backtick] @ ''s'', ''St. Mary'' @ [apostrophe] @ ''s'')]"

definition COUNTY_CODE_TO_NAME :: "(string \<times> string) list" where
  "COUNTY_CODE_TO_NAME =
     [(''01'', ''Allegany''), (''02'', ''Anne Arundel''), (''03'', ''Baltimore City''),
      (''04'', ''Baltimore''), (''05'', ''Calvert''), (''06'', ''Caroline''),
      (''07'', ''Carroll''), (''08'', ''Cecil''), (''09'', ''Charles''),
      (''10'', ''Dorchester''), (''11'', ''Frederick''), (''12'', ''Garrett''),
      (''13'', ''Harford''), (''14'', ''Howard''), (''15'', ''Kent''),
      (''16'', ''Montgomery''), (''17'', ''Prince George'' @ [apostrophe] @ ''s''),
      (''18'', ''Queen Anne'' @ [apostrophe] @ ''s''),
      (''19'', ''St. Mary'' @ [apostrophe] @ ''s''), (''20'', ''Somerset''),
      (''21'', ''Talbot''), (''22'', ''Washington''), (''23'', ''Wicomico''),
      (''24'', ''Worcester'')]"

text \<open>\<^verbatim>\<open>table.get(key, default)\<close>\<close>

definition dict_get :: "(string \<times> string) list \<Rightarrow> string \<Rightarrow> string \<Rightarrow> string" where
  "dict_get table k dflt = (case map_of table k of Some v \<Rightarrow> v | None \<Rightarrow> dflt)"

subsection \<open>The three normalizers\<close>

definition normalize_office :: "string \<Rightarrow> string" where
  "normalize_office raw =
     (let office1 = strip_chars [dquote] (strip raw);
          office2 = sub_dash_lit_tail ''vote for'' office1;
          office3 = sub_dash_lit_tail ''(vote for'' office2;
          office4 = strip_chars '' -'' office3
      in dict_get OFFICE_CLEANUPS office4 office4)"

definition parse_candidate :: "string \<Rightarrow> string \<times> string \<times> string" where
  "parse_candidate cell =
     (let text0 = strip_chars [dquote] (strip cell);
          is_winner = ends_with '' Winner'' text0;
          winner_v = (if is_winner then ''TRUE'' else []);
          text1 = (if is_winner then rstrip (take (length text0 - 7) text0) else text0);
          (candidate0, party0) =
             (case search_paren_group [] text1 of
                Some (pre, g) \<Rightarrow> (strip pre, strip g)
              | None \<Rightarrow> (text1, []))
      in (strip (collapse_ws candidate0), strip (collapse_ws party0), winner_v))"

definition normalize_county :: "string \<Rightarrow> string" where
  "normalize_county raw =
     (let county1 = strip (strip_chars [dquote] (strip raw));
          county2 = sub_ws_lit_end ''county'' [] county1;
          county3 = sub_ws_lit_end ''city'' '' City'' county2;
          county4 = dict_get COUNTY_FIXES county3 county3
      in replace_backticks county4)"

section \<open>The encoding-tolerant reader\<close>

text \<open>
  \<^verbatim>\<open>read_text_with_fallback\<close> decodes the bytes of a file with \<^verbatim>\<open>utf-8-sig\<close>, then
  \<^verbatim>\<open>cp1252\<close>, then \<^verbatim>\<open>latin-1\<close>. A decoded text is the list of its code points. The first
  two codecs are parameters, free to refuse any input (\<^const>\<open>None\<close> is
  \<^verbatim>\<open>UnicodeDecodeError\<close>); latin-1 maps every byte to the code point of the same number.
\<close>

type_synonym byte = "8 word"
type_synonym codec = "byte list \<Rightarrow> nat list option"

definition decode_latin1 :: codec where
  "decode_latin1 bs = Some (map unat bs)"

text \<open>The \<^verbatim>\<open>for encoding in (...)\<close> loop: the first codec that decodes returns.\<close>

fun try_codecs :: "codec list \<Rightarrow> byte list \<Rightarrow> nat list option" where
  "try_codecs [] bs = None"
| "try_codecs (d # ds) bs =
     (case d bs of Some s \<Rightarrow> Some s | None \<Rightarrow> try_codecs ds bs)"

text \<open>Where the text came from: the loop, or the last attempt after the loop, which
  raises when \<^verbatim>\<open>utf-8-sig\<close> refuses the bytes.\<close>

datatype read_result =
    From_loop "nat list"
  | From_retry "nat list"
  | Raised_UnicodeDecodeError

definition read_text_with_fallback :: "codec \<Rightarrow> codec \<Rightarrow> byte list \<Rightarrow> read_result" where
  "read_text_with_fallback utf_8_sig cp1252 bs =
     (case try_codecs [utf_8_sig, cp1252, decode_latin1] bs of
        Some s \<Rightarrow> From_loop s
      | None \<Rightarrow>
          (case utf_8_sig bs of
             Some s \<Rightarrow> From_retry s
           | None \<Rightarrow> Raised_UnicodeDecodeError))"

section \<open>The row extractors\<close>

text \<open>
  An extractor collects \<^verbatim>\<open>rows_out\<close>, a list of dictionaries with eight fixed keys, and
  hands it to \<^verbatim>\<open>csv.DictWriter\<close>. The model of an extractor returns \<^verbatim>\<open>rows_out\<close>. Its
  input is what the library readers yield: the rows of \<^verbatim>\<open>csv.reader\<close> (lists of cells) for
  the two CSV extractors, the lines of the opened file for the pipe extractor.
\<close>

record out_row =
  county :: string
  precinct :: string
  office :: string
  district :: string
  party :: string
  candidate :: string
  votes :: int
  winner :: string

subsection \<open>Pivoted legacy CSV: \<^verbatim>\<open>convert_csv_style_file\<close>\<close>

type_synonym cand = "string \<times> string \<times> string"

record csv_state =
  cur_office :: "string option"
  candidates :: "cand list"
  rows_out :: "out_row list"

definition MARKERS :: "string list" where
  "MARKERS = [''Vote For'', ''Vote for'', ''Vote For One'', ''Vote For One Pair'',
              ''Vote for One Pair'']"

text \<open>The truth value of \<^verbatim>\<open>office\<close>, which is \<^verbatim>\<open>None\<close> or a text.\<close>

definition office_set :: "string option \<Rightarrow> bool" where
  "office_set off = (case off of None \<Rightarrow> False | Some s \<Rightarrow> s \<noteq> [])"

definition is_marker_row :: "string \<Rightarrow> string list \<Rightarrow> bool" where
  "is_marker_row first row =
     (first \<noteq> [] \<and> length (filter (\<lambda>x. x \<noteq> []) (tl row)) \<le> 1
      \<and> list_ex (\<lambda>marker. contains_sub marker first) MARKERS)"

text \<open>The candidate header row: \<^verbatim>\<open>for cell in row[1:]\<close>.\<close>

definition header_cell :: "string \<Rightarrow> cand list" where
  "header_cell cell0 =
     (let cell = strip cell0
      in if cell = [] then []
         else (case parse_candidate cell of
                 (cand_name, cand_party, cand_winner) \<Rightarrow>
                   if cand_name \<noteq> [] then [(cand_name, cand_party, cand_winner)] else []))"

definition header_candidates :: "string list \<Rightarrow> cand list" where
  "header_candidates row = concat (map header_cell (tl row))"

text \<open>One pass of the loop over \<^verbatim>\<open>enumerate(candidates, start=1)\<close> in a county row.\<close>

definition vote_row :: "string \<Rightarrow> string \<Rightarrow> string list \<Rightarrow> nat \<times> cand \<Rightarrow> out_row list" where
  "vote_row cty off row ic =
     (case ic of
        (idx, cand_name, cand_party, cand_winner) \<Rightarrow>
          if length row \<le> idx then []
          else (let vote_cell = strip_chars [dquote] (strip (row ! idx))
                in if vote_cell = [] then []
                   else (case py_int (remove_commas vote_cell) of
                           None \<Rightarrow> []
                         | Some v \<Rightarrow>
                             [\<lparr>county = cty, precinct = [], office = off, district = [],
                               party = cand_party, candidate = cand_name, votes = v,
                               winner = cand_winner\<rparr>])))"

definition county_rows :: "string \<Rightarrow> string \<Rightarrow> string list \<Rightarrow> cand list \<Rightarrow> out_row list" where
  "county_rows cty off row cands = concat (map (vote_row cty off row) (List.enumerate 1 cands))"

text \<open>The body of \<^verbatim>\<open>for row in reader\<close>.\<close>

definition csv_step :: "csv_state \<Rightarrow> string list \<Rightarrow> csv_state" where
  "csv_step st raw_row =
     (let row = map strip raw_row
      in if \<not> list_ex (\<lambda>x. x \<noteq> []) row then st
         else (case row of
                 [] \<Rightarrow> st
               | cell0 # _ \<Rightarrow>
                   (let first = strip (strip_chars [dquote] cell0)
                    in if is_marker_row first row
                       then st\<lparr>cur_office := Some (normalize_office first), candidates := []\<rparr>
                       else if first = [] \<and> office_set (cur_office st)
                       then st\<lparr>candidates := header_candidates row\<rparr>
                       else (case cur_office st of
                               None \<Rightarrow> st
                             | Some off \<Rightarrow>
                                 if off \<noteq> [] \<and> candidates st \<noteq> [] \<and> first \<noteq> []
                                 then st\<lparr>rows_out := rows_out st
                                        @ county_rows (normalize_county first) off row
                                            (candidates st)\<rparr>
                                 else st))))"

definition csv_init :: csv_state where
  "csv_init = \<lparr>cur_office = None, candidates = [], rows_out = []\<rparr>"

definition convert_csv_style_rows :: "string list list \<Rightarrow> out_row list" where
  "convert_csv_style_rows rows = rows_out (foldl csv_step csv_init rows)"

text \<open>The return value of \<^verbatim>\<open>convert_csv_style_file\<close>: \<^verbatim>\<open>len(rows_out)\<close>.\<close>

definition convert_csv_style_file :: "string list list \<Rightarrow> nat" where
  "convert_csv_style_file rows = length (convert_csv_style_rows rows)"

subsection \<open>Pipe-delimited text: \<^verbatim>\<open>convert_pipe_style_file\<close>\<close>

text \<open>\<^verbatim>\<open>raw.split("|")\<close>\<close>

fun split_on :: "char \<Rightarrow> string \<Rightarrow> string list" where
  "split_on sep [] = [[]]"
| "split_on sep (c # cs) =
     (if c = sep then [] # split_on sep cs
      else (case split_on sep cs of
              [] \<Rightarrow> [[c]]
            | p # ps \<Rightarrow> (c # p) # ps))"

text \<open>\<^verbatim>\<open>" ".join(parts)\<close>\<close>

fun join_space :: "string list \<Rightarrow> string" where
  "join_space [] = []"
| "join_space [x] = x"
| "join_space (x # y # ys) = x @ '' '' @ join_space (y # ys)"

text \<open>The token \<^verbatim>\<open>r"\N"\<close>: a backslash and the letter N.\<close>

definition NULL_TOKEN :: string where
  "NULL_TOKEN = [backslash, CHR ''N'']"

text \<open>The body of \<^verbatim>\<open>for line in f\<close>: the rows one line appends.\<close>

definition pipe_line :: "string \<Rightarrow> out_row list" where
  "pipe_line line =
     (let raw = rev (dropWhile (\<lambda>c. c = newline) (rev line))
      in if strip raw = [] then []
         else (let parts = map strip (split_on CHR ''|'' raw)
               in if length parts < 10 then []
                  else (let office_raw = parts ! 0;
                            county_raw = parts ! 2;
                            last_n = parts ! 3;
                            middle_n = parts ! 4;
                            first_n = parts ! 5;
                            party_raw = parts ! 6;
                            winner_flag = parts ! 7;
                            votes_raw = parts ! 9
                        in if votes_raw = [] \<or> votes_raw = NULL_TOKEN then []
                           else (case py_int (remove_commas votes_raw) of
                                   None \<Rightarrow> []
                                 | Some v \<Rightarrow>
                                     (let name_parts =
                                            filter (\<lambda>x. x \<noteq> [] \<and> x \<noteq> NULL_TOKEN)
                                              [first_n, middle_n, last_n];
                                          cand0 = strip (join_space name_parts);
                                          cand1 = (if cand0 = [] then ''Unknown'' else cand0);
                                          cand2 = (if lower cand1 = ''other write-ins''
                                                      \<or> lower last_n = ''zz998''
                                                   then ''Other Write-Ins'' else cand1)
                                      in [\<lparr>county = normalize_county county_raw,
                                            precinct = [],
                                            office = normalize_office office_raw,
                                            district = [],
                                            party = (if party_raw = NULL_TOKEN then []
                                                     else party_raw),
                                            candidate = cand2,
                                            votes = v,
                                            winner = (if winner_flag = ''1'' then ''TRUE''
                                                      else [])\<rparr>])))))"

definition convert_pipe_style_rows :: "string list \<Rightarrow> out_row list" where
  "convert_pipe_style_rows file_lines = concat (map pipe_line file_lines)"

definition convert_pipe_style_file :: "string list \<Rightarrow> nat" where
  "convert_pipe_style_file file_lines = length (convert_pipe_style_rows file_lines)"

subsection \<open>Modern tidy CSV: \<^verbatim>\<open>convert_modern_precinct_csv\<close>\<close>

text \<open>
  \<^verbatim>\<open>csv.DictReader\<close> takes the first row as \<^verbatim>\<open>fieldnames\<close>, skips every later row that is
  \<^verbatim>\<open>[]\<close>, and turns a row into \<^verbatim>\<open>dict(zip(fieldnames, row))\<close>, in which a later column
  of the same name wins; the names beyond a short row are then set to \<^verbatim>\<open>None\<close>.
  The function \<^verbatim>\<open>row_get\<close> below is \<^verbatim>\<open>row.get(key)\<close> on that dictionary.
\<close>

definition row_get :: "string list \<Rightarrow> string list \<Rightarrow> string \<Rightarrow> string option" where
  "row_get fieldnames row k =
     (if k \<in> set (drop (length row) fieldnames) then None
      else map_of (rev (zip fieldnames row)) k)"

text \<open>\<^verbatim>\<open>(row.get(key) or "")\<close>\<close>

definition get_or_empty :: "string list \<Rightarrow> string list \<Rightarrow> string \<Rightarrow> string" where
  "get_or_empty fieldnames row k =
     (case row_get fieldnames row k of None \<Rightarrow> [] | Some v \<Rightarrow> v)"

fun parse_int :: "string option \<Rightarrow> int" where
  "parse_int None = 0"
| "parse_int (Some v) =
     (let text1 = strip_chars [dquote] (strip v)
      in if text1 = [] then 0
         else (case py_int (remove_commas text1) of Some n \<Rightarrow> n | None \<Rightarrow> 0))"

definition vote_columns :: "string list \<Rightarrow> string list" where
  "vote_columns fieldnames =
     filter (\<lambda>c. c \<noteq> [] \<and> contains_sub ''Votes'' c \<and> \<not> contains_sub ''Against'' c) fieldnames"

text \<open>The body of \<^verbatim>\<open>for row in reader\<close>: the one row it appends.\<close>

definition modern_row :: "string list \<Rightarrow> string list \<Rightarrow> out_row" where
  "modern_row fieldnames row =
     (let county_name0 = strip (get_or_empty fieldnames row ''County Name'');
          county_code = zfill 2 (strip (get_or_empty fieldnames row ''County''));
          county_name = (if county_name0 = []
                         then dict_get COUNTY_CODE_TO_NAME county_code county_code
                         else county_name0);
          ep = strip (get_or_empty fieldnames row ''Election District - Precinct'');
          ed = strip (get_or_empty fieldnames row ''Election District'');
          pr = strip (get_or_empty fieldnames row ''Election Precinct'');
          winner_cell = upper (strip (get_or_empty fieldnames row ''Winner''))
      in \<lparr>county = normalize_county county_name,
          precinct = (if ep \<noteq> [] then ep
                      else if ed \<noteq> [] \<or> pr \<noteq> [] then ed @ ''-'' @ pr else []),
          office = normalize_office (strip (get_or_empty fieldnames row ''Office Name'')),
          district = strip_chars [dquote] (strip (get_or_empty fieldnames row ''Office District'')),
          party = strip_chars [dquote] (strip (get_or_empty fieldnames row ''Party'')),
          candidate = strip_chars [dquote] (strip (get_or_empty fieldnames row ''Candidate Name'')),
          votes = sum_list (map (\<lambda>col. parse_int (row_get fieldnames row col))
                              (vote_columns fieldnames)),
          winner = (if winner_cell = ''Y'' \<or> winner_cell = ''TRUE'' \<or> winner_cell = ''1''
                    then ''TRUE'' else [])\<rparr>)"

definition convert_modern_rows :: "string list list \<Rightarrow> out_row list" where
  "convert_modern_rows rows =
     (case rows of
        [] \<Rightarrow> []
      | fieldnames # data \<Rightarrow>
          if fieldnames = [] then []
          else map (modern_row fieldnames) (filter (\<lambda>r. r \<noteq> []) data))"

definition convert_modern_precinct_csv :: "string list list \<Rightarrow> nat" where
  "convert_modern_precinct_csv rows = length (convert_modern_rows rows)"

subsection \<open>Format selection: \<^verbatim>\<open>detect_csv_format\<close> and \<^verbatim>\<open>convert_file\<close>\<close>

datatype csv_format = Modern | Legacy

text \<open>\<^verbatim>\<open>next(reader, [])\<close>\<close>

definition first_row :: "string list list \<Rightarrow> string list" where
  "first_row rows = (case rows of [] \<Rightarrow> [] | h # _ \<Rightarrow> h)"

definition detect_csv_format :: "string list list \<Rightarrow> csv_format" where
  "detect_csv_format rows =
     (let header = first_row rows;
          normalized = set (map (\<lambda>h. strip_chars [dquote] (strip h)) header)
      in if ''Candidate Name'' \<in> normalized \<and> ''Office Name'' \<in> normalized
         then Modern else Legacy)"

text \<open>An input file as the converter sees it: \<^verbatim>\<open>input_path.suffix\<close>, the rows that
  \<^verbatim>\<open>csv.reader\<close> yields on its text, and the lines that iterating the opened file yields.\<close>

record input_file =
  suffix :: string
  csv_rows :: "string list list"
  file_lines :: "string list"

definition convert_file_rows :: "input_file \<Rightarrow> out_row list" where
  "convert_file_rows f =
     (if lower (suffix f) = ''.txt'' then convert_pipe_style_rows (file_lines f)
      else (case detect_csv_format (csv_rows f) of
              Modern \<Rightarrow> convert_modern_rows (csv_rows f)
            | Legacy \<Rightarrow> convert_csv_style_rows (csv_rows f)))"

definition convert_file :: "input_file \<Rightarrow> nat" where
  "convert_file f = length (convert_file_rows f)"

section \<open>Verified properties\<close>

text \<open>
  C4. The pivoted-legacy extractor on the marker row \<^verbatim>\<open>["Governor - Vote For One"]\<close>, the
  candidate header row \<^verbatim>\<open>["", "Alice (DEM)", "Bob (REP) Winner"]\<close> and the data row
  \<^verbatim>\<open>["Somerset County", "120", "80"]\<close> produces exactly two rows, in this order:
  Somerset, Governor, DEM, Alice, 120, not a winner; Somerset, Governor, REP, Bob, 80,
  winner \<^verbatim>\<open>TRUE\<close>.
\<close>

theorem legacy_end_to_end:
  "convert_csv_style_rows
     [[''Governor - Vote For One''],
      ['''', ''Alice (DEM)'', ''Bob (REP) Winner''],
      [''Somerset County'', ''120'', ''80'']]
   = [\<lparr>county = ''Somerset'', precinct = '''', office = ''Governor'', district = '''',
        party = ''DEM'', candidate = ''Alice'', votes = 120, winner = ''''\<rparr>,
      \<lparr>county = ''Somerset'', precinct = '''', office = ''Governor'', district = '''',
        party = ''REP'', candidate = ''Bob'', votes = 80, winner = ''TRUE''\<rparr>]"
  by code_simp

text \<open>
  C7. \<^verbatim>\<open>parse_candidate\<close> maps \<^verbatim>\<open>"Jane Doe (DEM) Winner"\<close> to Jane Doe, DEM, \<^verbatim>\<open>TRUE\<close> and
  \<^verbatim>\<open>"John Q. Smith"\<close> to John Q. Smith with an empty party and an empty winner. For every
  cell the winner component is \<^verbatim>\<open>TRUE\<close> exactly when the cell, stripped of outer
  whitespace and then of outer double quotes, ends with the suffix \<^verbatim>\<open>" Winner"\<close>, and is
  the empty text otherwise.
\<close>

theorem parse_candidate_winner:
  "parse_candidate ''Jane Doe (DEM) Winner'' = (''Jane Doe'', ''DEM'', ''TRUE'')
   \<and> parse_candidate ''John Q. Smith'' = (''John Q. Smith'', '''', '''')
   \<and> snd (snd (parse_candidate cell))
       = (if ends_with '' Winner'' (strip_chars [dquote] (strip cell)) then ''TRUE'' else '''')"
proof -
  have jane: "parse_candidate ''Jane Doe (DEM) Winner'' = (''Jane Doe'', ''DEM'', ''TRUE'')"
    by code_simp
  have john: "parse_candidate ''John Q. Smith'' = (''John Q. Smith'', '''', '''')"
    by code_simp
  have general: "snd (snd (parse_candidate cell))
       = (if ends_with '' Winner'' (strip_chars [dquote] (strip cell)) then ''TRUE'' else '''')"
    by (simp add: parse_candidate_def Let_def split: prod.splits option.splits)
  from jane john general show ?thesis by blast
qed

text \<open>
  C8. Whatever the first two codecs do, the reader returns from inside its loop with a
  decoded text: latin-1, the last codec of the loop, decodes every byte sequence. So no
  decoding error leaves the reader, and the attempt after the loop is never reached.
\<close>

theorem read_text_never_fails:
  "\<exists>s. read_text_with_fallback utf_8_sig cp1252 bs = From_loop s"
  by (simp add: read_text_with_fallback_def decode_latin1_def split: option.splits)

text \<open>
  C6. Format selection. A file whose suffix is \<^verbatim>\<open>.txt\<close> in any letter case goes to the pipe
  extractor, whatever its content. Any other file whose first CSV row has a cell that is
  \<^verbatim>\<open>Candidate Name\<close> and a cell that is \<^verbatim>\<open>Office Name\<close>, after stripping whitespace and
  double quotes, goes to the modern extractor. Every other file goes to the
  pivoted-legacy extractor.
\<close>

theorem format_selection:
  "(lower (suffix f) = ''.txt'' \<longrightarrow> convert_file_rows f = convert_pipe_style_rows (file_lines f))
   \<and> (lower (suffix f) \<noteq> ''.txt''
        \<and> (\<exists>h \<in> set (first_row (csv_rows f)). strip_chars [dquote] (strip h) = ''Candidate Name'')
        \<and> (\<exists>h \<in> set (first_row (csv_rows f)). strip_chars [dquote] (strip h) = ''Office Name'')
      \<longrightarrow> convert_file_rows f = convert_modern_rows (csv_rows f))
   \<and> (lower (suffix f) \<noteq> ''.txt''
        \<and> \<not> ((\<exists>h \<in> set (first_row (csv_rows f)). strip_chars [dquote] (strip h) = ''Candidate Name'')
            \<and> (\<exists>h \<in> set (first_row (csv_rows f)). strip_chars [dquote] (strip h) = ''Office Name''))
      \<longrightarrow> convert_file_rows f = convert_csv_style_rows (csv_rows f))"
  by (auto simp: convert_file_rows_def detect_csv_format_def Let_def image_iff)

text \<open>Three files, one for each branch: a \<^verbatim>\<open>.TXT\<close> file with a modern header, a CSV file
  with the two header cells, and a CSV file without them.\<close>

theorem format_selection_witness:
  "convert_file_rows
      \<lparr>suffix = ''.TXT'', csv_rows = [[''Candidate Name'', ''Office Name'']],
       file_lines = [''Gov|x|Kent|Doe|Q|Jane|DEM|1|x|7'']\<rparr>
     = convert_pipe_style_rows [''Gov|x|Kent|Doe|Q|Jane|DEM|1|x|7'']
   \<and> convert_file_rows
      \<lparr>suffix = ''.csv'',
       csv_rows = [['' Office Name '', [dquote] @ ''Candidate Name'' @ [dquote], ''Votes''],
                   [''Governor'', ''Jane Doe'', ''7'']],
       file_lines = []\<rparr>
     = convert_modern_rows
         [['' Office Name '', [dquote] @ ''Candidate Name'' @ [dquote], ''Votes''],
          [''Governor'', ''Jane Doe'', ''7'']]
   \<and> convert_file_rows
      \<lparr>suffix = ''.csv'', csv_rows = [[''Governor - Vote For One'']], file_lines = []\<rparr>
     = convert_csv_style_rows [[''Governor - Vote For One'']]"
proof -
  have upper_txt: "lower ''.TXT'' = ''.txt''" and lower_csv: "lower ''.csv'' \<noteq> ''.txt''"
    by code_simp+
  have office: "strip_chars [dquote] (strip '' Office Name '') = ''Office Name''"
    by code_simp
  have name: "strip_chars [dquote] (strip ([dquote] @ ''Candidate Name'' @ [dquote]))
                = ''Candidate Name''"
    by code_simp
  have other: "strip_chars [dquote] (strip ''Governor - Vote For One'') \<noteq> ''Candidate Name''"
    by code_simp
  show ?thesis
    using format_selection
            [of "\<lparr>suffix = ''.TXT'', csv_rows = [[''Candidate Name'', ''Office Name'']],
                  file_lines = [''Gov|x|Kent|Doe|Q|Jane|DEM|1|x|7'']\<rparr>"]
          format_selection
            [of "\<lparr>suffix = ''.csv'',
                  csv_rows = [['' Office Name '', [dquote] @ ''Candidate Name'' @ [dquote], ''Votes''],
                              [''Governor'', ''Jane Doe'', ''7'']],
                  file_lines = []\<rparr>"]
          format_selection
            [of "\<lparr>suffix = ''.csv'', csv_rows = [[''Governor - Vote For One'']],
                  file_lines = []\<rparr>"]
          upper_txt lower_csv office name other
    by (simp add: first_row_def)
qed

end
